theory Spec2Isabelle
  imports Main
begin

section \<open>JavaScript values and the operations the handler applies to them\<close>

text \<open>
  Every value the tool handler of \<^verbatim>\<open>src/index.ts\<close> touches is typed \<^verbatim>\<open>any\<close>: the
  tool arguments and the upstream response bodies are parsed JSON, and the interfaces
  \<^verbatim>\<open>PartnerEvent\<close>, \<^verbatim>\<open>PartnerVenue\<close> and \<^verbatim>\<open>PartnerAttraction\<close> are not checked at run
  time. A value is therefore a JSON value, and \<^verbatim>\<open>undefined\<close> (a missing property, a
  missing argument) is \<open>None\<close> of \<open>json option\<close>.

  A string is the list of its characters. An object is the list of its properties in
  order; a property is looked up by its name, which a JavaScript object holds once.
  Numbers are modelled as integers, rendered in decimal; this is what JavaScript does
  for integers of magnitude up to \<open>2^53\<close>, and a number with a fraction is outside the
  model.
\<close>

datatype json =
    JNull
  | JBool bool
  | JNum int
  | JStr string
  | JArr "json list"
  | JObj "(string \<times> json) list"

type_synonym jsval = "json option"

text \<open>
  The \<^verbatim>\<open>TypeError\<close>s the engine raises in this program, by cause. Their message text is
  the engine's and is a parameter of the model (see \<open>runtime\<close> below).
\<close>

datatype type_error =
    CannotRead jsval string   \<comment> \<open>a property read from \<^verbatim>\<open>null\<close> or \<^verbatim>\<open>undefined\<close>\<close>
  | NotAFunction string       \<comment> \<open>a call of a property that is not a function\<close>
  | CannotConvert             \<comment> \<open>an object with no usable \<^verbatim>\<open>toString\<close> converted to a string\<close>
  | CannotDestructure         \<comment> \<open>destructuring of \<^verbatim>\<open>undefined\<close>\<close>

text \<open>
  The HTTP response the upstream service gives, as the HTTP client (axios) presents it:
  \<^verbatim>\<open>response.status\<close>, \<^verbatim>\<open>response.statusText\<close>, \<^verbatim>\<open>response.data\<close>.
\<close>

record http_response =
  status :: nat
  statusText :: string
  data :: json

text \<open>
  What the HTTP client rejects with: an error carrying the response (a status outside
  the client's accepted range), an error carrying only the request (nothing came back),
  or an error with neither (the request could not be set up), with its message.
\<close>

datatype axios_error =
    BadStatus http_response
  | NoResponse
  | SetupFailed string

datatype ErrorCode = InvalidParams | MethodNotFound | InternalError

text \<open>Everything the program can throw.\<close>

datatype thrown =
    TypeError type_error
  | McpError ErrorCode string     \<comment> \<open>\<^verbatim>\<open>new McpError(code, message)\<close>\<close>
  | AxiosError axios_error

text \<open>
  What stops a computation: a thrown value, or a step that the model does not cover (the
  numeric value of a string, needed only to compare the \<^verbatim>\<open>length\<close> property of an
  object that is not an array with zero).
\<close>

datatype abort = Throw thrown | Unmodelled

type_synonym 'a result = "abort + 'a"

definition bindR :: "'a result \<Rightarrow> ('a \<Rightarrow> 'b result) \<Rightarrow> 'b result" where
  "bindR m f = (case m of Inl e \<Rightarrow> Inl e | Inr x \<Rightarrow> f x)"

text \<open>ToBoolean: the test of \<^verbatim>\<open>if (x)\<close>, \<^verbatim>\<open>x && y\<close>, \<^verbatim>\<open>x || y\<close> and \<^verbatim>\<open>!x\<close>.\<close>

fun truthy :: "jsval \<Rightarrow> bool" where
  "truthy None = False"
| "truthy (Some JNull) = False"
| "truthy (Some (JBool b)) = b"
| "truthy (Some (JNum n)) = (n \<noteq> 0)"
| "truthy (Some (JStr s)) = (s \<noteq> [])"
| "truthy (Some (JArr xs)) = True"
| "truthy (Some (JObj kvs)) = True"

text \<open>Decimal rendering of a number.\<close>

definition digit_char :: "nat \<Rightarrow> char" where
  "digit_char d = ''0123456789'' ! d"

fun show_nat :: "nat \<Rightarrow> string" where
  "show_nat n = (if n < 10 then [digit_char n] else show_nat (n div 10) @ [digit_char (n mod 10)])"

definition show_int :: "int \<Rightarrow> string" where
  "show_int i = (if i < 0 then CHR ''-'' # show_nat (nat (- i)) else show_nat (nat i))"

text \<open>\<^verbatim>\<open>Array.prototype.join\<close> on strings.\<close>

fun join :: "string \<Rightarrow> string list \<Rightarrow> string" where
  "join sep [] = []"
| "join sep [x] = x"
| "join sep (x # y # ys) = x @ sep @ join sep (y # ys)"

text \<open>
  ToString, as a template literal and string concatenation apply it. An array is joined
  with commas, \<^verbatim>\<open>null\<close> elements giving the empty string. A plain object gives
  \<^verbatim>\<open>[object Object]\<close>, unless it has a property \<^verbatim>\<open>toString\<close> of its own: no JSON value
  is callable, the inherited \<^verbatim>\<open>valueOf\<close> returns the object, and the conversion throws.
\<close>

fun to_string :: "json \<Rightarrow> string result"
  and to_string_elems :: "json list \<Rightarrow> string list result" where
  "to_string JNull = Inr ''null''"
| "to_string (JBool b) = Inr (if b then ''true'' else ''false'')"
| "to_string (JNum n) = Inr (show_int n)"
| "to_string (JStr s) = Inr s"
| "to_string (JArr xs) =
     (case to_string_elems xs of Inl e \<Rightarrow> Inl e | Inr ss \<Rightarrow> Inr (join '','' ss))"
| "to_string (JObj kvs) =
     (if map_of kvs ''toString'' \<noteq> None then Inl (Throw (TypeError CannotConvert))
      else Inr ''[object Object]'')"
| "to_string_elems [] = Inr []"
| "to_string_elems (x # xs) =
     (case (if x = JNull then Inr [] else to_string x) of
        Inl e \<Rightarrow> Inl e
      | Inr s \<Rightarrow> (case to_string_elems xs of Inl e \<Rightarrow> Inl e | Inr ss \<Rightarrow> Inr (s # ss)))"

definition ToString :: "jsval \<Rightarrow> string result" where
  "ToString v = (case v of None \<Rightarrow> Inr ''undefined'' | Some j \<Rightarrow> to_string j)"


declare show_nat.simps [simp del]

subsection \<open>Property access\<close>

text \<open>
  A property of a value that is neither \<^verbatim>\<open>null\<close> nor \<^verbatim>\<open>undefined\<close>, for the property
  names this program reads: an object has its own properties, an array and a string
  have \<^verbatim>\<open>length\<close>, anything else has none of them.
\<close>

fun own_prop :: "json \<Rightarrow> string \<Rightarrow> jsval" where
  "own_prop (JObj kvs) k = map_of kvs k"
| "own_prop (JArr xs) k = (if k = ''length'' then Some (JNum (int (length xs))) else None)"
| "own_prop (JStr s) k = (if k = ''length'' then Some (JNum (int (length s))) else None)"
| "own_prop _ k = None"

text \<open>\<^verbatim>\<open>v.k\<close>: throws on \<^verbatim>\<open>null\<close> and \<^verbatim>\<open>undefined\<close>.\<close>

fun get_prop :: "jsval \<Rightarrow> string \<Rightarrow> jsval result" where
  "get_prop None k = Inl (Throw (TypeError (CannotRead None k)))"
| "get_prop (Some JNull) k = Inl (Throw (TypeError (CannotRead (Some JNull) k)))"
| "get_prop (Some j) k = Inr (own_prop j k)"

text \<open>\<^verbatim>\<open>v?.k\<close>: \<^verbatim>\<open>undefined\<close> on \<^verbatim>\<open>null\<close> and \<^verbatim>\<open>undefined\<close>.\<close>

fun opt_prop :: "jsval \<Rightarrow> string \<Rightarrow> jsval" where
  "opt_prop None k = None"
| "opt_prop (Some JNull) k = None"
| "opt_prop (Some j) k = own_prop j k"

text \<open>\<^verbatim>\<open>v > 0\<close>. The numeric value of a string, an array or an object is not modelled.\<close>

fun gt_zero :: "jsval \<Rightarrow> bool result" where
  "gt_zero None = Inr False"
| "gt_zero (Some JNull) = Inr False"
| "gt_zero (Some (JBool b)) = Inr b"
| "gt_zero (Some (JNum n)) = Inr (0 < n)"
| "gt_zero (Some _) = Inl Unmodelled"

text \<open>\<^verbatim>\<open>v[0]\<close>.\<close>

fun index0 :: "jsval \<Rightarrow> jsval result" where
  "index0 None = Inl (Throw (TypeError (CannotRead None ''0'')))"
| "index0 (Some JNull) = Inl (Throw (TypeError (CannotRead (Some JNull) ''0'')))"
| "index0 (Some (JArr xs)) = Inr (case xs of [] \<Rightarrow> None | x # _ \<Rightarrow> Some x)"
| "index0 (Some (JStr s)) = Inr (case s of [] \<Rightarrow> None | c # _ \<Rightarrow> Some (JStr [c]))"
| "index0 (Some (JObj kvs)) = Inr (map_of kvs ''0'')"
| "index0 (Some _) = Inr None"

text \<open>\<^verbatim>\<open>a || 'TBD'\<close> with a string on the right.\<close>

definition or_else :: "jsval \<Rightarrow> string \<Rightarrow> jsval" where
  "or_else a d = (if truthy a then a else Some (JStr d))"

text \<open>\<^verbatim>\<open>v && v.length > 0\<close>.\<close>

definition nonempty :: "jsval \<Rightarrow> bool result" where
  "nonempty v = (if truthy v then gt_zero (opt_prop v ''length'') else Inr False)"

text \<open>Each element of a list through a function that may throw, left to right.\<close>

fun mapR :: "('a \<Rightarrow> 'b result) \<Rightarrow> 'a list \<Rightarrow> 'b list result" where
  "mapR f [] = Inr []"
| "mapR f (x # xs) = bindR (f x) (\<lambda>y. bindR (mapR f xs) (\<lambda>ys. Inr (y # ys)))"

section \<open>The text projections\<close>

text \<open>
  \<^verbatim>\<open>formatEventAsText\<close>, \<^verbatim>\<open>formatVenueAsText\<close> and \<^verbatim>\<open>formatAttractionAsText\<close>
  (\<^verbatim>\<open>index.ts\<close>, lines 219 to 287). Each projection starts a list \<^verbatim>\<open>lines\<close> with its first line, pushes further lines
  under the conditions below, and joins the list with a newline. The model has one
  definition for each conditional block, giving the lines that block pushes.
\<close>

text \<open>The first line, \<^verbatim>\<open>`Event: ${event.name} (ID: ${event.id})`\<close> and its siblings.\<close>

definition head_line :: "string \<Rightarrow> jsval \<Rightarrow> string result" where
  "head_line label entity =
     bindR (get_prop entity ''name'') (\<lambda>name.
     bindR (ToString name) (\<lambda>name_s.
     bindR (get_prop entity ''id'') (\<lambda>ident.
     bindR (ToString ident) (\<lambda>id_s.
       Inr (label @ '': '' @ name_s @ '' (ID: '' @ id_s @ '')'')))))"

text \<open>\<^verbatim>\<open>if (x.url) { lines.push(`URL: ${x.url}`) }\<close>\<close>

definition url_lines :: "jsval \<Rightarrow> string list result" where
  "url_lines entity =
     bindR (get_prop entity ''url'') (\<lambda>url.
       if truthy url then bindR (ToString url) (\<lambda>u. Inr [''URL: '' @ u]) else Inr [])"

subsection \<open>formatEventAsText\<close>

text \<open>\<^verbatim>\<open>if (event.dates?.start) { ... }\<close>\<close>

definition event_date_lines :: "jsval \<Rightarrow> string list result" where
  "event_date_lines event =
     bindR (get_prop event ''dates'') (\<lambda>dates.
       let start = opt_prop dates ''start'' in
       if truthy start then
         bindR (get_prop start ''localDate'') (\<lambda>localDate.
         bindR (get_prop start ''localTime'') (\<lambda>localTime.
         bindR (ToString (or_else localDate ''TBD'')) (\<lambda>date.
         bindR (ToString (or_else localTime ''TBD'')) (\<lambda>time.
           Inr [''Date/Time: '' @ date @ '' at '' @ time]))))
       else Inr [])"

text \<open>
  \<^verbatim>\<open>`Location: ${venue.city.name}${venue.state ? ', ' + venue.state.stateCode : ''}`\<close>
\<close>

definition event_location_line :: "jsval \<Rightarrow> string result" where
  "event_location_line venue =
     bindR (get_prop venue ''city'') (\<lambda>city.
     bindR (get_prop city ''name'') (\<lambda>city_name.
     bindR (ToString city_name) (\<lambda>city_s.
     bindR (get_prop venue ''state'') (\<lambda>state.
     bindR (if truthy state
            then bindR (get_prop state ''stateCode'') (\<lambda>code.
                 bindR (ToString code) (\<lambda>code_s. Inr ('', '' @ code_s)))
            else Inr []) (\<lambda>state_s.
       Inr (''Location: '' @ city_s @ state_s))))))"

text \<open>\<^verbatim>\<open>if (event._embedded?.venues && event._embedded.venues.length > 0) { ... }\<close>\<close>

definition event_venue_lines :: "jsval \<Rightarrow> string list result" where
  "event_venue_lines event =
     bindR (get_prop event ''_embedded'') (\<lambda>embedded.
       let venues = opt_prop embedded ''venues'' in
       bindR (nonempty venues) (\<lambda>some.
         if some then
           bindR (index0 venues) (\<lambda>venue.
           bindR (get_prop venue ''name'') (\<lambda>name.
           bindR (ToString name) (\<lambda>name_s.
           bindR (get_prop venue ''city'') (\<lambda>city.
             if truthy (opt_prop city ''name'') then
               bindR (event_location_line venue) (\<lambda>loc.
                 Inr [''Venue: '' @ name_s, loc])
             else Inr [''Venue: '' @ name_s]))))
         else Inr []))"

text \<open>\<^verbatim>\<open>if (event.priceRanges && event.priceRanges.length > 0) { ... }\<close>\<close>

definition event_price_lines :: "jsval \<Rightarrow> string list result" where
  "event_price_lines event =
     bindR (get_prop event ''priceRanges'') (\<lambda>priceRanges.
     bindR (nonempty priceRanges) (\<lambda>some.
       if some then
         bindR (index0 priceRanges) (\<lambda>range.
         bindR (get_prop range ''min'') (\<lambda>lo.
         bindR (ToString lo) (\<lambda>lo_s.
         bindR (get_prop range ''max'') (\<lambda>hi.
         bindR (ToString hi) (\<lambda>hi_s.
         bindR (get_prop range ''currency'') (\<lambda>currency.
         bindR (ToString currency) (\<lambda>cur_s.
           Inr [''Price Range: $'' @ lo_s @ '' - $'' @ hi_s @ '' '' @ cur_s])))))))
       else Inr []))"

definition formatEventAsText :: "jsval \<Rightarrow> string result" where
  "formatEventAsText event =
     bindR (head_line ''Event'' event) (\<lambda>l0.
     bindR (event_date_lines event) (\<lambda>l1.
     bindR (event_venue_lines event) (\<lambda>l2.
     bindR (event_price_lines event) (\<lambda>l3.
     bindR (url_lines event) (\<lambda>l4.
       Inr (join ''\<newline>'' ([l0] @ l1 @ l2 @ l3 @ l4)))))))"

subsection \<open>formatVenueAsText\<close>

text \<open>\<^verbatim>\<open>if (venue.address?.line1) { lines.push(`Address: ${venue.address.line1}`) }\<close>\<close>

definition venue_address_lines :: "jsval \<Rightarrow> string list result" where
  "venue_address_lines venue =
     bindR (get_prop venue ''address'') (\<lambda>address.
       if truthy (opt_prop address ''line1'') then
         bindR (get_prop address ''line1'') (\<lambda>line1.
         bindR (ToString line1) (\<lambda>s. Inr [''Address: '' @ s]))
       else Inr [])"

text \<open>
  \<^verbatim>\<open>if (venue.city?.name) { const location = [venue.city.name]; ... }\<close>: the state code and
  the country code are pushed when truthy, and \<^verbatim>\<open>location.join(', ')\<close> converts each
  element to a string.
\<close>

definition venue_location_lines :: "jsval \<Rightarrow> string list result" where
  "venue_location_lines venue =
     bindR (get_prop venue ''city'') (\<lambda>city.
       if truthy (opt_prop city ''name'') then
         bindR (get_prop city ''name'') (\<lambda>city_name.
         bindR (get_prop venue ''state'') (\<lambda>state.
         bindR (get_prop venue ''country'') (\<lambda>country.
           let stateCode = opt_prop state ''stateCode'';
               countryCode = opt_prop country ''countryCode'';
               location = [city_name]
                 @ (if truthy stateCode then [stateCode] else [])
                 @ (if truthy countryCode then [countryCode] else []) in
           bindR (mapR ToString location) (\<lambda>parts.
             Inr [''Location: '' @ join '', '' parts]))))
       else Inr [])"

definition formatVenueAsText :: "jsval \<Rightarrow> string result" where
  "formatVenueAsText venue =
     bindR (head_line ''Venue'' venue) (\<lambda>l0.
     bindR (venue_address_lines venue) (\<lambda>l1.
     bindR (venue_location_lines venue) (\<lambda>l2.
     bindR (url_lines venue) (\<lambda>l3.
       Inr (join ''\<newline>'' ([l0] @ l1 @ l2 @ l3))))))"

subsection \<open>formatAttractionAsText\<close>

text \<open>
  \<^verbatim>\<open>classifications.find(c => c.primary)\<close>: the first element with a truthy
  \<^verbatim>\<open>primary\<close>, else \<^verbatim>\<open>undefined\<close>. Only an array has \<^verbatim>\<open>find\<close>.
\<close>

fun find_primary :: "json list \<Rightarrow> jsval result" where
  "find_primary [] = Inr None"
| "find_primary (c # cs) =
     bindR (get_prop (Some c) ''primary'') (\<lambda>p.
       if truthy p then Inr (Some c) else find_primary cs)"

fun find_primary_in :: "jsval \<Rightarrow> jsval result" where
  "find_primary_in (Some (JArr cs)) = find_primary cs"
| "find_primary_in _ = Inl (Throw (TypeError (NotAFunction ''find'')))"

text \<open>\<^verbatim>\<open>if (attraction.classifications && attraction.classifications.length > 0) { ... }\<close>\<close>

definition attraction_class_lines :: "jsval \<Rightarrow> string list result" where
  "attraction_class_lines attraction =
     bindR (get_prop attraction ''classifications'') (\<lambda>classifications.
     bindR (nonempty classifications) (\<lambda>some.
       if some then
         bindR (find_primary_in classifications) (\<lambda>found.
         bindR (if truthy found then Inr found else index0 classifications) (\<lambda>primary.
         bindR (get_prop primary ''segment'') (\<lambda>segment.
         bindR (get_prop primary ''genre'') (\<lambda>genre.
           let segment_name = opt_prop segment ''name'';
               genre_name = opt_prop genre ''name'';
               classInfo = (if truthy segment_name then [segment_name] else [])
                 @ (if truthy genre_name then [genre_name] else []) in
           if classInfo \<noteq> [] then
             bindR (mapR ToString classInfo) (\<lambda>parts.
               Inr [''Classification: '' @ join '' - '' parts])
           else Inr []))))
       else Inr []))"

definition formatAttractionAsText :: "jsval \<Rightarrow> string result" where
  "formatAttractionAsText attraction =
     bindR (head_line ''Attraction'' attraction) (\<lambda>l0.
     bindR (attraction_class_lines attraction) (\<lambda>l1.
     bindR (url_lines attraction) (\<lambda>l2.
       Inr (join ''\<newline>'' ([l0] @ l1 @ l2)))))"

section \<open>The API client\<close>

text \<open>
  Every method of \<^verbatim>\<open>TicketmasterPartnerAPIClient\<close> (lines 126 to 216) is one
  \<^verbatim>\<open>axiosInstance.get(url, { params })\<close>. A request is its path under the fixed base URL
  and the \<^verbatim>\<open>params\<close> object (\<open>None\<close> when the method is called without one), whose
  properties are listed in the order the source writes them.
\<close>

record request =
  url :: string
  params :: "(string \<times> jsval) list option"

text \<open>What happens to a request on the network.\<close>

datatype reply =
    Answered http_response
  | Unanswered
  | NotSent string

text \<open>
  What the program takes from outside the repository: the network, the text of
  \<^verbatim>\<open>error.message\<close> of a \<^verbatim>\<open>new McpError(code, message)\<close> (built by the SDK), the
  message text of the engine's \<^verbatim>\<open>TypeError\<close>s, and the text that the engine's
  \<^verbatim>\<open>JSON.stringify(value, null, 2)\<close> writes for a value. The last is the engine's
  rendering of numbers and strings, which this theory does not model: the handler is
  verified for whatever that text is.
\<close>

record runtime =
  transport :: "request \<Rightarrow> reply"
  mcp_message :: "ErrorCode \<Rightarrow> string \<Rightarrow> string"
  engine_message :: "type_error \<Rightarrow> string"
  json_stringify :: "json \<Rightarrow> string"

text \<open>
  \<^verbatim>\<open>(await axiosInstance.get(...)).data\<close>. The client is created without a
  \<^verbatim>\<open>validateStatus\<close> option, so it resolves on a status from 200 to 299 and rejects on
  any other.
\<close>

definition axios_get :: "runtime \<Rightarrow> request \<Rightarrow> json result" where
  "axios_get rt req =
     (case transport rt req of
        Answered r \<Rightarrow>
          if 200 \<le> status r \<and> status r < 300 then Inr (data r)
          else Inl (Throw (AxiosError (BadStatus r)))
      | Unanswered \<Rightarrow> Inl (Throw (AxiosError NoResponse))
      | NotSent m \<Rightarrow> Inl (Throw (AxiosError (SetupFailed m))))"

text \<open>
  The request each method sends. The single-entity methods build the path with a
  template literal, which converts the identifier to a string.
\<close>

definition searchEvents :: "(string \<times> jsval) list \<Rightarrow> request result" where
  "searchEvents ps = Inr \<lparr>url = ''/events'', params = Some ps\<rparr>"

definition getEvent :: "jsval \<Rightarrow> request result" where
  "getEvent ident = bindR (ToString ident) (\<lambda>s. Inr \<lparr>url = ''/events/'' @ s, params = None\<rparr>)"

definition searchVenues :: "(string \<times> jsval) list \<Rightarrow> request result" where
  "searchVenues ps = Inr \<lparr>url = ''/venues'', params = Some ps\<rparr>"

definition getVenue :: "jsval \<Rightarrow> request result" where
  "getVenue ident = bindR (ToString ident) (\<lambda>s. Inr \<lparr>url = ''/venues/'' @ s, params = None\<rparr>)"

definition searchAttractions :: "(string \<times> jsval) list \<Rightarrow> request result" where
  "searchAttractions ps = Inr \<lparr>url = ''/attractions'', params = Some ps\<rparr>"

definition getAttraction :: "jsval \<Rightarrow> request result" where
  "getAttraction ident =
     bindR (ToString ident) (\<lambda>s. Inr \<lparr>url = ''/attractions/'' @ s, params = None\<rparr>)"

section \<open>The tool handler\<close>

text \<open>
  The handler of \<^verbatim>\<open>CallToolRequestSchema\<close> (lines 408 to 573). The arguments of a tool
  call are an object, or missing. The handler destructures
  nineteen properties from them; \<open>arg a k\<close> is the local variable \<open>k\<close>, and \<^verbatim>\<open>size\<close>,
  \<^verbatim>\<open>page\<close> and \<^verbatim>\<open>format\<close> have defaults that replace \<^verbatim>\<open>undefined\<close>.
\<close>

type_synonym arguments = "(string \<times> json) list"

definition arg :: "arguments \<Rightarrow> string \<Rightarrow> jsval" where
  "arg a k =
     (case map_of a k of
        Some v \<Rightarrow> Some v
      | None \<Rightarrow>
          if k = ''size'' then Some (JNum 20)
          else if k = ''page'' then Some (JNum 0)
          else if k = ''format'' then Some (JStr ''json'')
          else None)"

text \<open>The object literal passed to each search method: shorthand properties, in order.\<close>

definition pick :: "arguments \<Rightarrow> string list \<Rightarrow> (string \<times> jsval) list" where
  "pick a ks = map (\<lambda>k. (k, arg a k)) ks"

definition event_search_fields :: "string list" where
  "event_search_fields =
     [''keyword'', ''attractionId'', ''venueId'', ''postalCode'', ''latlong'', ''radius'',
      ''unit'', ''startDateTime'', ''endDateTime'', ''size'', ''page'', ''sort'', ''city'',
      ''countryCode'', ''stateCode'', ''classificationName'']"

definition venue_search_fields :: "string list" where
  "venue_search_fields =
     [''keyword'', ''size'', ''page'', ''sort'', ''city'', ''countryCode'', ''stateCode'',
      ''postalCode'', ''latlong'', ''radius'', ''unit'']"

definition attraction_search_fields :: "string list" where
  "attraction_search_fields =
     [''keyword'', ''size'', ''page'', ''sort'', ''classificationName'']"

text \<open>
  The branch on \<^verbatim>\<open>type\<close>: the request to send, or the \<^verbatim>\<open>McpError\<close> for any other type.
\<close>

definition route :: "arguments \<Rightarrow> request result" where
  "route a =
     (if arg a ''type'' = Some (JStr ''event'') then
        (if truthy (arg a ''eventId'') then getEvent (arg a ''eventId'')
         else searchEvents (pick a event_search_fields))
      else if arg a ''type'' = Some (JStr ''venue'') then
        (if truthy (arg a ''venueId'') \<and> \<not> truthy (arg a ''keyword'')
         then getVenue (arg a ''venueId'')
         else searchVenues (pick a venue_search_fields))
      else if arg a ''type'' = Some (JStr ''attraction'') then
        (if truthy (arg a ''attractionId'') \<and> \<not> truthy (arg a ''keyword'')
         then getAttraction (arg a ''attractionId'')
         else searchAttractions (pick a attraction_search_fields))
      else
        bindR (ToString (arg a ''type'')) (\<lambda>t.
          Inl (Throw (McpError InvalidParams
            (''Invalid search type: '' @ t
               @ ''. Must be '' @ [CHR 0x27] @ ''event'' @ [CHR 0x27]
               @ '', '' @ [CHR 0x27] @ ''venue'' @ [CHR 0x27]
               @ '', or '' @ [CHR 0x27] @ ''attraction'' @ [CHR 0x27] @ ''.'')))))"

text \<open>\<^verbatim>\<open>xs.map(f).join(sep)\<close>: only an array has \<^verbatim>\<open>map\<close>.\<close>

definition separator :: string where
  "separator = ''\<newline>\<newline>---\<newline>\<newline>''"

fun map_join :: "(jsval \<Rightarrow> string result) \<Rightarrow> jsval \<Rightarrow> string result" where
  "map_join f (Some (JArr xs)) =
     bindR (mapR (\<lambda>x. f (Some x)) xs) (\<lambda>ps. Inr (join separator ps))"
| "map_join f _ = Inl (Throw (TypeError (NotAFunction ''map'')))"

text \<open>The value of \<^verbatim>\<open>textOutput\<close> when \<^verbatim>\<open>format === 'text'\<close>.\<close>

definition textOutput :: "jsval \<Rightarrow> json \<Rightarrow> string result" where
  "textOutput type results =
     bindR (get_prop (Some results) ''_embedded'') (\<lambda>embedded.
       if truthy embedded then
         bindR (get_prop embedded ''events'') (\<lambda>events.
           if truthy events then map_join formatEventAsText events
           else
             bindR (get_prop embedded ''venues'') (\<lambda>venues.
               if truthy venues then map_join formatVenueAsText venues
               else
                 bindR (get_prop embedded ''attractions'') (\<lambda>attractions.
                   if truthy attractions then map_join formatAttractionAsText attractions
                   else Inr [])))
       else if type = Some (JStr ''event'') then formatEventAsText (Some results)
       else if type = Some (JStr ''venue'') then formatVenueAsText (Some results)
       else if type = Some (JStr ''attraction'') then formatAttractionAsText (Some results)
       else Inr [])"

text \<open>
  The text the handler returns for the upstream body \<open>results\<close>: the text projection
  or the sentinel when \<^verbatim>\<open>format === 'text'\<close>, and \<^verbatim>\<open>JSON.stringify(results, null, 2)\<close>
  otherwise.
\<close>

definition format_output :: "runtime \<Rightarrow> arguments \<Rightarrow> json \<Rightarrow> string result" where
  "format_output rt a results =
     (if arg a ''format'' = Some (JStr ''text'') then
        bindR (textOutput (arg a ''type'') results) (\<lambda>t.
          Inr (if t \<noteq> [] then t else ''No results found.''))
      else Inr (json_stringify rt results))"

text \<open>
  The body of the \<^verbatim>\<open>try\<close> block: the requests sent, and the text returned or what was
  thrown.
\<close>

definition search_tm_partner :: "runtime \<Rightarrow> arguments option \<Rightarrow> request list \<times> string result" where
  "search_tm_partner rt args =
     (case args of
        None \<Rightarrow> ([], Inl (Throw (TypeError CannotDestructure)))
      | Some a \<Rightarrow>
          (case route a of
             Inl e \<Rightarrow> ([], Inl e)
           | Inr req \<Rightarrow> ([req], bindR (axios_get rt req) (format_output rt a))))"

definition try_block :: "runtime \<Rightarrow> string \<Rightarrow> arguments option \<Rightarrow> request list \<times> string result" where
  "try_block rt name args =
     (if name = ''search_tm_partner'' then search_tm_partner rt args
      else ([], Inl (Throw (McpError MethodNotFound (''Unknown tool: '' @ name)))))"

text \<open>
  The three properties the \<^verbatim>\<open>catch\<close> block reads from what was thrown. It reads
  \<^verbatim>\<open>message\<close> only when the other two are missing; for the two axios errors that have
  one of them, \<open>error_message\<close> is never consulted and is left empty.
\<close>

fun error_response :: "thrown \<Rightarrow> http_response option" where
  "error_response (AxiosError (BadStatus r)) = Some r"
| "error_response _ = None"

fun error_request :: "thrown \<Rightarrow> bool" where
  "error_request (AxiosError (BadStatus r)) = True"
| "error_request (AxiosError NoResponse) = True"
| "error_request _ = False"

fun error_message :: "runtime \<Rightarrow> thrown \<Rightarrow> string" where
  "error_message rt (TypeError e) = engine_message rt e"
| "error_message rt (McpError c m) = mcp_message rt c m"
| "error_message rt (AxiosError (SetupFailed m)) = m"
| "error_message rt (AxiosError _) = []"

text \<open>
  How a call of the handler ends: it returns a text, it throws (an \<^verbatim>\<open>McpError\<close> built in
  the \<^verbatim>\<open>catch\<close> block, or a \<^verbatim>\<open>TypeError\<close> raised inside that block), or it took a step
  that the model does not cover.
\<close>

datatype outcome =
    Returned string      \<comment> \<open>\<^verbatim>\<open>{ content: [{ type: 'text', text }] }\<close>\<close>
  | Raised thrown
  | OutOfModel

definition catch_block :: "runtime \<Rightarrow> thrown \<Rightarrow> outcome" where
  "catch_block rt error =
     (case error_response error of
        Some response \<Rightarrow>
          (let message = opt_prop (Some (data response)) ''message'' in
           case (if truthy message then ToString message else Inr (statusText response)) of
             Inr detail \<Rightarrow>
               Raised (McpError InternalError
                 (''Ticketmaster Partner API error: '' @ show_nat (status response)
                    @ '' - '' @ detail))
           | Inl (Throw e) \<Rightarrow> Raised e
           | Inl Unmodelled \<Rightarrow> OutOfModel)
      | None \<Rightarrow>
          if error_request error then
            Raised (McpError InternalError ''No response from Ticketmaster Partner API'')
          else
            Raised (McpError InternalError (''Error: '' @ error_message rt error)))"

definition handler :: "runtime \<Rightarrow> string \<Rightarrow> arguments option \<Rightarrow> request list \<times> outcome" where
  "handler rt name args =
     (case try_block rt name args of
        (sent, Inr text) \<Rightarrow> (sent, Returned text)
      | (sent, Inl (Throw e)) \<Rightarrow> (sent, catch_block rt e)
      | (sent, Inl Unmodelled) \<Rightarrow> (sent, OutOfModel))"

section \<open>Sample calls\<close>

text \<open>
  Concrete runtimes and inputs, at which the theorems below are evaluated: an upstream
  service that answers every request with status 200 and a given body, and one that
  answers 404 with a message. The other three components of both are simple
  placeholders.
\<close>

definition sample_runtime :: "json \<Rightarrow> runtime" where
  "sample_runtime body =
     \<lparr>transport = (\<lambda>req. Answered \<lparr>status = 200, statusText = ''OK'', data = body\<rparr>),
      mcp_message = (\<lambda>code m. m),
      engine_message = (\<lambda>e. ''TypeError''),
      json_stringify = (\<lambda>v. ''{}'')\<rparr>"

definition not_found_runtime :: runtime where
  "not_found_runtime =
     \<lparr>transport = (\<lambda>req. Answered \<lparr>status = 404, statusText = ''Not Found'',
                        data = JObj [(''message'', JStr ''not found'')]\<rparr>),
      mcp_message = (\<lambda>code m. m),
      engine_message = (\<lambda>e. ''TypeError''),
      json_stringify = (\<lambda>v. ''{}'')\<rparr>"

definition args_event_empty_id :: arguments where
  "args_event_empty_id = [(''type'', JStr ''event''), (''eventId'', JStr [])]"

definition args_event_id :: arguments where
  "args_event_id =
     [(''type'', JStr ''event''), (''eventId'', JStr ''E7''), (''keyword'', JStr ''jazz'')]"

definition args_event_keyword :: arguments where
  "args_event_keyword = [(''type'', JStr ''event''), (''keyword'', JStr ''jazz'')]"

definition args_venue_empty_keyword :: arguments where
  "args_venue_empty_keyword =
     [(''type'', JStr ''venue''), (''venueId'', JStr ''V1''), (''keyword'', JStr [])]"

definition args_venue_id :: arguments where
  "args_venue_id = [(''type'', JStr ''venue''), (''venueId'', JStr ''V1'')]"

definition args_venue_both :: arguments where
  "args_venue_both =
     [(''type'', JStr ''venue''), (''venueId'', JStr ''V1''), (''keyword'', JStr ''hall'')]"

definition args_venue_empty_id :: arguments where
  "args_venue_empty_id = [(''type'', JStr ''venue''), (''venueId'', JStr [])]"

definition args_attraction_id :: arguments where
  "args_attraction_id = [(''type'', JStr ''attraction''), (''attractionId'', JStr ''K9'')]"

definition args_attraction_both :: arguments where
  "args_attraction_both =
     [(''type'', JStr ''attraction''), (''attractionId'', JStr ''K9''),
      (''keyword'', JStr ''band'')]"

definition args_attraction_empty_id :: arguments where
  "args_attraction_empty_id = [(''type'', JStr ''attraction''), (''attractionId'', JStr [])]"

definition args_venue_text :: arguments where
  "args_venue_text = [(''type'', JStr ''venue''), (''format'', JStr ''text'')]"

definition args_venue_market :: arguments where
  "args_venue_market =
     [(''type'', JStr ''venue''), (''marketId'', JStr ''27''), (''keyword'', JStr ''hall''),
      (''locale'', JStr ''en-us'')]"

definition args_venue_source :: arguments where
  "args_venue_source =
     [(''source'', JStr ''tmr''), (''type'', JStr ''venue''), (''keyword'', JStr ''hall'')]"

definition venue_a :: json where
  "venue_a = JObj [(''name'', JStr ''Hall A''), (''id'', JStr ''V1'')]"

definition venue_b :: json where
  "venue_b =
     JObj [(''name'', JStr ''Hall B''), (''id'', JStr ''V2''),
           (''city'', JObj [(''name'', JStr ''Oslo'')]),
           (''country'', JObj [(''countryCode'', JStr ''NO'')])]"

definition two_venues_body :: json where
  "two_venues_body = JObj [(''_embedded'', JObj [(''venues'', JArr [venue_a, venue_b])])]"

definition bare_event :: json where
  "bare_event = JObj [(''name'', JStr ''Gala''), (''id'', JStr ''E7'')]"

definition embedded_events_body :: json where
  "embedded_events_body = JObj [(''_embedded'', JObj [(''events'', JArr [bare_event])])]"

section \<open>Basic facts\<close>

lemma bindR_simps [simp]:
  "bindR (Inr x) f = f x"
  "bindR (Inl e) f = Inl e"
  by (simp_all add: bindR_def)

lemma ToString_simps [simp]:
  "ToString None = Inr ''undefined''"
  "ToString (Some j) = to_string j"
  by (simp_all add: ToString_def)

lemma nonempty_simps [simp]:
  "nonempty None = Inr False"
  "nonempty (Some (JArr xs)) = Inr (xs \<noteq> [])"
  by (auto simp add: nonempty_def)

lemma arg_plain:
  "k \<noteq> ''size'' \<Longrightarrow> k \<noteq> ''page'' \<Longrightarrow> k \<noteq> ''format'' \<Longrightarrow> arg a k = map_of a k"
  by (simp add: arg_def split: option.splits)

lemma sent_requests:
  "fst (handler rt ''search_tm_partner'' (Some a))
   = (case route a of Inl e \<Rightarrow> [] | Inr req \<Rightarrow> [req])"
  by (simp add: handler_def try_block_def search_tm_partner_def
      split: sum.splits abort.splits prod.splits)

lemma handler_rejected:
  assumes "route a = Inr req" and "transport rt req = Answered r"
    and "\<not> (200 \<le> status r \<and> status r < 300)"
  shows "handler rt ''search_tm_partner'' (Some a)
         = ([req], catch_block rt (AxiosError (BadStatus r)))"
  using assms
  by (auto simp add: handler_def try_block_def search_tm_partner_def axios_get_def)

lemma handler_resolved:
  assumes "route a = Inr req" and "transport rt req = Answered r"
    and "200 \<le> status r" and "status r < 300"
    and "format_output rt a (data r) = Inr t"
  shows "handler rt ''search_tm_partner'' (Some a) = ([req], Returned t)"
  using assms
  by (simp add: handler_def try_block_def search_tm_partner_def axios_get_def)

lemma join_Cons_nonempty: "x \<noteq> [] \<Longrightarrow> join sep (x # xs) \<noteq> []"
  by (cases xs) simp_all

lemma mapR_all2: "list_all2 (\<lambda>x p. f x = Inr p) xs ps \<Longrightarrow> mapR f xs = Inr ps"
  by (induction xs ps rule: list_all2_induct) simp_all

section \<open>Routing\<close>

text \<open>
  C1, as amended. The venue branch tests \<^verbatim>\<open>venueId && !keyword\<close>, so what decides is
  whether each value is truthy, not whether it was supplied. For a request of type
  \<^verbatim>\<open>venue\<close>: when \<^verbatim>\<open>venueId\<close> is truthy and \<^verbatim>\<open>keyword\<close> is not, the handler sends the
  single-entity request \<^verbatim>\<open>/venues/<venueId>\<close> with no parameters; in every other case
  (both truthy, in particular) it sends the search request \<^verbatim>\<open>/venues\<close> whose parameters
  are the venue search fields, which hold \<^verbatim>\<open>keyword\<close> and do not hold \<^verbatim>\<open>venueId\<close>. The
  attraction branch does the same with \<^verbatim>\<open>attractionId\<close>.
\<close>

theorem venue_attraction_routing:
  "(map_of a ''type'' = Some (JStr ''venue'') \<longrightarrow>
      (truthy (map_of a ''venueId'') \<and> \<not> truthy (map_of a ''keyword'')
         \<and> ToString (map_of a ''venueId'') = Inr s
         \<longrightarrow> fst (handler rt ''search_tm_partner'' (Some a))
               = [\<lparr>url = ''/venues/'' @ s, params = None\<rparr>])
      \<and> (\<not> (truthy (map_of a ''venueId'') \<and> \<not> truthy (map_of a ''keyword''))
         \<longrightarrow> fst (handler rt ''search_tm_partner'' (Some a))
               = [\<lparr>url = ''/venues'', params = Some (pick a venue_search_fields)\<rparr>]))
   \<and> (map_of a ''type'' = Some (JStr ''attraction'') \<longrightarrow>
      (truthy (map_of a ''attractionId'') \<and> \<not> truthy (map_of a ''keyword'')
         \<and> ToString (map_of a ''attractionId'') = Inr s
         \<longrightarrow> fst (handler rt ''search_tm_partner'' (Some a))
               = [\<lparr>url = ''/attractions/'' @ s, params = None\<rparr>])
      \<and> (\<not> (truthy (map_of a ''attractionId'') \<and> \<not> truthy (map_of a ''keyword''))
         \<longrightarrow> fst (handler rt ''search_tm_partner'' (Some a))
               = [\<lparr>url = ''/attractions'', params = Some (pick a attraction_search_fields)\<rparr>]))
   \<and> ''keyword'' \<in> set venue_search_fields \<and> ''venueId'' \<notin> set venue_search_fields
   \<and> ''keyword'' \<in> set attraction_search_fields
   \<and> ''attractionId'' \<notin> set attraction_search_fields"
  by (simp add: sent_requests route_def arg_plain searchVenues_def getVenue_def
      searchAttractions_def getAttraction_def venue_search_fields_def
      attraction_search_fields_def)

text \<open>
  The four cases at concrete requests: an identifier alone is fetched, an identifier
  with a keyword is searched by the keyword.
\<close>

theorem venue_attraction_routing_witness:
  "fst (handler (sample_runtime JNull) ''search_tm_partner'' (Some args_venue_id))
     = [\<lparr>url = ''/venues/V1'', params = None\<rparr>]
   \<and> fst (handler (sample_runtime JNull) ''search_tm_partner'' (Some args_venue_both))
     = [\<lparr>url = ''/venues'',
         params = Some [(''keyword'', Some (JStr ''hall'')), (''size'', Some (JNum 20)),
           (''page'', Some (JNum 0)), (''sort'', None), (''city'', None),
           (''countryCode'', None), (''stateCode'', None), (''postalCode'', None),
           (''latlong'', None), (''radius'', None), (''unit'', None)]\<rparr>]
   \<and> fst (handler (sample_runtime JNull) ''search_tm_partner'' (Some args_attraction_id))
     = [\<lparr>url = ''/attractions/K9'', params = None\<rparr>]
   \<and> fst (handler (sample_runtime JNull) ''search_tm_partner'' (Some args_attraction_both))
     = [\<lparr>url = ''/attractions'',
         params = Some [(''keyword'', Some (JStr ''band'')), (''size'', Some (JNum 20)),
           (''page'', Some (JNum 0)), (''sort'', None), (''classificationName'', None)]\<rparr>]"
  using venue_attraction_routing [of args_venue_id "''V1''" "sample_runtime JNull"]
    venue_attraction_routing [of args_venue_both "''V1''" "sample_runtime JNull"]
    venue_attraction_routing [of args_attraction_id "''K9''" "sample_runtime JNull"]
    venue_attraction_routing [of args_attraction_both "''K9''" "sample_runtime JNull"]
  by (simp add: args_venue_id_def args_venue_both_def args_attraction_id_def
      args_attraction_both_def pick_def arg_def venue_search_fields_def
      attraction_search_fields_def)

text \<open>
  With ``supplied'' read as present in the arguments, the property fails: a request of
  type \<^verbatim>\<open>venue\<close> that supplies \<^verbatim>\<open>venueId = "V1"\<close> and \<^verbatim>\<open>keyword = ""\<close> supplies both,
  and the handler sends the single-entity request, not the search.
\<close>

theorem venue_both_supplied_counterexample:
  "map_of args_venue_empty_keyword ''type'' = Some (JStr ''venue'')
   \<and> map_of args_venue_empty_keyword ''venueId'' = Some (JStr ''V1'')
   \<and> map_of args_venue_empty_keyword ''keyword'' = Some (JStr [])
   \<and> fst (handler (sample_runtime JNull) ''search_tm_partner'' (Some args_venue_empty_keyword))
       = [\<lparr>url = ''/venues/V1'', params = None\<rparr>]
   \<and> fst (handler (sample_runtime JNull) ''search_tm_partner'' (Some args_venue_empty_keyword))
       \<noteq> [\<lparr>url = ''/venues'',
             params = Some (pick args_venue_empty_keyword venue_search_fields)\<rparr>]"
  by (simp add: sent_requests route_def arg_plain getVenue_def args_venue_empty_keyword_def)

text \<open>
  C2, as amended. The event branch tests \<^verbatim>\<open>if (eventId)\<close>. For a request of type
  \<^verbatim>\<open>event\<close>: when \<^verbatim>\<open>eventId\<close> is truthy, the handler sends the single-entity request
  \<^verbatim>\<open>/events/<eventId>\<close> with no parameters at all, so that no other argument reaches
  the upstream service; when \<^verbatim>\<open>eventId\<close> is absent (or otherwise not truthy), it sends
  the search request \<^verbatim>\<open>/events\<close> whose parameters are the sixteen event search fields.
\<close>

theorem event_routing:
  "map_of a ''type'' = Some (JStr ''event'') \<Longrightarrow>
   (truthy (map_of a ''eventId'') \<and> ToString (map_of a ''eventId'') = Inr s
      \<longrightarrow> fst (handler rt ''search_tm_partner'' (Some a))
            = [\<lparr>url = ''/events/'' @ s, params = None\<rparr>])
   \<and> (\<not> truthy (map_of a ''eventId'')
      \<longrightarrow> fst (handler rt ''search_tm_partner'' (Some a))
            = [\<lparr>url = ''/events'', params = Some (pick a event_search_fields)\<rparr>])"
  by (simp add: sent_requests route_def arg_plain searchEvents_def getEvent_def)

text \<open>
  An event identifier with a keyword: the identifier is fetched and the keyword is not
  sent. A keyword alone: the search is sent with all sixteen fields.
\<close>

theorem event_routing_witness:
  "fst (handler (sample_runtime JNull) ''search_tm_partner'' (Some args_event_id))
     = [\<lparr>url = ''/events/E7'', params = None\<rparr>]
   \<and> fst (handler (sample_runtime JNull) ''search_tm_partner'' (Some args_event_keyword))
     = [\<lparr>url = ''/events'',
         params = Some [(''keyword'', Some (JStr ''jazz'')), (''attractionId'', None),
           (''venueId'', None), (''postalCode'', None), (''latlong'', None),
           (''radius'', None), (''unit'', None), (''startDateTime'', None),
           (''endDateTime'', None), (''size'', Some (JNum 20)), (''page'', Some (JNum 0)),
           (''sort'', None), (''city'', None), (''countryCode'', None),
           (''stateCode'', None), (''classificationName'', None)]\<rparr>]"
  using event_routing [of args_event_id "''E7''" "sample_runtime JNull"]
    event_routing [of args_event_keyword "''E7''" "sample_runtime JNull"]
  by (simp add: args_event_id_def args_event_keyword_def pick_def arg_def
      event_search_fields_def)

text \<open>
  With ``supplied'' read as present in the arguments, the property fails: a request of
  type \<^verbatim>\<open>event\<close> that supplies \<^verbatim>\<open>eventId = ""\<close> is answered by a search, not by the
  single-entity request for that identifier.
\<close>

theorem event_id_supplied_counterexample:
  "map_of args_event_empty_id ''type'' = Some (JStr ''event'')
   \<and> map_of args_event_empty_id ''eventId'' = Some (JStr [])
   \<and> fst (handler (sample_runtime JNull) ''search_tm_partner'' (Some args_event_empty_id))
       = [\<lparr>url = ''/events'', params = Some (pick args_event_empty_id event_search_fields)\<rparr>]
   \<and> fst (handler (sample_runtime JNull) ''search_tm_partner'' (Some args_event_empty_id))
       \<noteq> [\<lparr>url = ''/events/'', params = None\<rparr>]"
  by (simp add: sent_requests route_def arg_plain searchEvents_def args_event_empty_id_def)

section \<open>Errors\<close>

text \<open>
  C3. For a type other than the three, the handler throws
  \<^verbatim>\<open>new McpError(ErrorCode.InvalidParams, ...)\<close> inside its own \<^verbatim>\<open>try\<close> block. The \<^verbatim>\<open>catch\<close>
  block finds neither \<^verbatim>\<open>response\<close> nor \<^verbatim>\<open>request\<close> on it and throws a new error with
  the code \<^verbatim>\<open>InternalError\<close>, whose message wraps the message of the first. At
  \<^verbatim>\<open>type = "bogus"\<close> no request is sent, and the error that leaves the handler is an
  \<^verbatim>\<open>InternalError\<close>, not an \<^verbatim>\<open>InvalidParams\<close>.
\<close>

theorem bogus_type_is_internal_error:
  "handler rt ''search_tm_partner'' (Some [(''type'', JStr ''bogus'')])
   = ([], Raised (McpError InternalError
        (''Error: '' @ mcp_message rt InvalidParams
           (''Invalid search type: bogus. Must be '' @ [CHR 0x27] @ ''event'' @ [CHR 0x27]
              @ '', '' @ [CHR 0x27] @ ''venue'' @ [CHR 0x27]
              @ '', or '' @ [CHR 0x27] @ ''attraction'' @ [CHR 0x27] @ ''.''))))"
  by (simp add: handler_def try_block_def search_tm_partner_def route_def arg_def
      catch_block_def)

text \<open>
  C4. When the request is sent and the answer has a status outside 200 to 299, the
  handler throws an \<^verbatim>\<open>McpError\<close> whose message is
  \<^verbatim>\<open>Ticketmaster Partner API error: <status> - <detail>\<close>. The detail is the \<^verbatim>\<open>message\<close>
  property of the body when that is truthy (a non-empty string, in particular), and
  the status text when the body has no \<^verbatim>\<open>message\<close> (or an empty one).
\<close>

theorem upstream_rejection_message:
  assumes "route a = Inr req" and "transport rt req = Answered r"
    and "\<not> (200 \<le> status r \<and> status r < 300)"
  shows "(truthy (opt_prop (Some (data r)) ''message'')
            \<and> ToString (opt_prop (Some (data r)) ''message'') = Inr m
          \<longrightarrow> handler rt ''search_tm_partner'' (Some a)
              = ([req], Raised (McpError InternalError
                  (''Ticketmaster Partner API error: '' @ show_nat (status r) @ '' - '' @ m))))
       \<and> (\<not> truthy (opt_prop (Some (data r)) ''message'')
          \<longrightarrow> handler rt ''search_tm_partner'' (Some a)
              = ([req], Raised (McpError InternalError
                  (''Ticketmaster Partner API error: '' @ show_nat (status r) @ '' - ''
                     @ statusText r))))"
  using assms by (simp add: handler_rejected catch_block_def)

lemma show_nat_404: "show_nat 404 = ''404''"
  by (simp add: show_nat.simps digit_char_def)

text \<open>A 404 with the body \<^verbatim>\<open>{"message":"not found"}\<close>.\<close>

theorem upstream_rejection_message_witness:
  "handler not_found_runtime ''search_tm_partner'' (Some args_venue_id)
   = ([\<lparr>url = ''/venues/V1'', params = None\<rparr>],
      Raised (McpError InternalError ''Ticketmaster Partner API error: 404 - not found''))"
proof -
  let ?req = "\<lparr>url = ''/venues/V1'', params = None\<rparr>"
  let ?r = "\<lparr>status = 404, statusText = ''Not Found'',
             data = JObj [(''message'', JStr ''not found'')]\<rparr>"
  have sent: "route args_venue_id = Inr ?req"
    by (simp add: route_def arg_def getVenue_def args_venue_id_def)
  have answer: "transport not_found_runtime ?req = Answered ?r"
    by (simp add: not_found_runtime_def)
  have rejected: "\<not> (200 \<le> status ?r \<and> status ?r < 300)"
    by simp
  show ?thesis
    using upstream_rejection_message [OF sent answer rejected, of "''not found''"]
    by (simp add: show_nat_404)
qed

section \<open>Formatting\<close>

lemma head_line_nonempty: "head_line label v = Inr l \<Longrightarrow> l \<noteq> []"
  by (auto simp add: head_line_def bindR_def split: sum.splits)

lemma event_text_nonempty: "formatEventAsText v = Inr p \<Longrightarrow> p \<noteq> []"
  by (auto simp add: formatEventAsText_def bindR_def join_Cons_nonempty
      dest!: head_line_nonempty split: sum.splits)

lemma venue_text_nonempty: "formatVenueAsText v = Inr p \<Longrightarrow> p \<noteq> []"
  by (auto simp add: formatVenueAsText_def bindR_def join_Cons_nonempty
      dest!: head_line_nonempty split: sum.splits)

lemma attraction_text_nonempty: "formatAttractionAsText v = Inr p \<Longrightarrow> p \<noteq> []"
  by (auto simp add: formatAttractionAsText_def bindR_def join_Cons_nonempty
      dest!: head_line_nonempty split: sum.splits)

lemma joined_nonempty:
  assumes "list_all2 (\<lambda>x p. f x = Inr p) xs ps" and "\<And>x p. f x = Inr p \<Longrightarrow> p \<noteq> []"
  shows "(join sep ps = []) = (xs = [])"
proof (cases ps)
  case Nil
  with assms(1) show ?thesis by simp
next
  case (Cons p ps')
  with assms(1) obtain x xs' where "xs = x # xs'" "f x = Inr p"
    by (auto simp add: list_all2_Cons2)
  with assms(2) Cons show ?thesis by (simp add: join_Cons_nonempty)
qed

lemma map_join_array:
  assumes "list_all2 (\<lambda>x p. f (Some x) = Inr p) xs ps"
  shows "map_join f (Some (JArr xs)) = Inr (join separator ps)"
  using mapR_all2 [OF assms] by simp

lemma sentinel_array:
  assumes "list_all2 (\<lambda>x p. f (Some x) = Inr p) xs ps"
    and "\<And>x p. f x = Inr p \<Longrightarrow> p \<noteq> []"
  shows "(if join separator ps \<noteq> [] then join separator ps else d)
         = (if xs = [] then d else join separator ps)"
proof -
  have "(join separator ps = []) = (xs = [])"
    using assms by (intro joined_nonempty [where f = "\<lambda>x. f (Some x)"]) auto
  then show ?thesis by simp
qed

text \<open>
  C5. In text mode, for a body whose \<^verbatim>\<open>_embedded\<close> object holds an array under
  \<^verbatim>\<open>events\<close>, the text is the event projections of its elements, in order, joined by
  the separator; if \<^verbatim>\<open>events\<close> is not truthy and \<^verbatim>\<open>venues\<close> holds an array, it is the
  venue projections; if neither is truthy and \<^verbatim>\<open>attractions\<close> holds an array, the
  attraction projections. This is the value of \<^verbatim>\<open>textOutput\<close>, whatever the type of the
  request, and the text the handler returns, except that for an empty array the joined
  text is empty and the handler returns \<^verbatim>\<open>No results found.\<close> in its place.
\<close>

theorem embedded_collection_text:
  assumes "map_of a ''format'' = Some (JStr ''text'')"
    and "map_of kvs ''_embedded'' = Some (JObj e)"
  shows "(map_of e ''events'' = Some (JArr xs)
            \<and> list_all2 (\<lambda>x p. formatEventAsText (Some x) = Inr p) xs ps
          \<longrightarrow> textOutput kind (JObj kvs) = Inr (join separator ps)
            \<and> format_output rt a (JObj kvs)
                = Inr (if xs = [] then ''No results found.'' else join separator ps))
       \<and> (\<not> truthy (map_of e ''events'') \<and> map_of e ''venues'' = Some (JArr xs)
            \<and> list_all2 (\<lambda>x p. formatVenueAsText (Some x) = Inr p) xs ps
          \<longrightarrow> textOutput kind (JObj kvs) = Inr (join separator ps)
            \<and> format_output rt a (JObj kvs)
                = Inr (if xs = [] then ''No results found.'' else join separator ps))
       \<and> (\<not> truthy (map_of e ''events'') \<and> \<not> truthy (map_of e ''venues'')
            \<and> map_of e ''attractions'' = Some (JArr xs)
            \<and> list_all2 (\<lambda>x p. formatAttractionAsText (Some x) = Inr p) xs ps
          \<longrightarrow> textOutput kind (JObj kvs) = Inr (join separator ps)
            \<and> format_output rt a (JObj kvs)
                = Inr (if xs = [] then ''No results found.'' else join separator ps))"
proof -
  have fmt: "arg a ''format'' = Some (JStr ''text'')"
    using assms(1) by (simp add: arg_def)
  have returned: "format_output rt a (JObj kvs)
      = Inr (if xs = [] then ''No results found.'' else join separator ps)"
    if "textOutput (arg a ''type'') (JObj kvs) = Inr (join separator ps)"
      and "list_all2 (\<lambda>x p. f (Some x) = Inr p) xs ps"
      and "\<And>x p. f x = Inr p \<Longrightarrow> p \<noteq> []" for f
    using sentinel_array [OF that(2,3)] by (simp add: format_output_def fmt that(1))
  have ev: "textOutput k (JObj kvs) = Inr (join separator ps)"
    if "map_of e ''events'' = Some (JArr xs)"
      and "list_all2 (\<lambda>x p. formatEventAsText (Some x) = Inr p) xs ps" for k
    using that(1) assms(2)
    by (simp add: textOutput_def map_join_array [OF that(2)] del: map_join.simps)
  have ve: "textOutput k (JObj kvs) = Inr (join separator ps)"
    if "\<not> truthy (map_of e ''events'')" and "map_of e ''venues'' = Some (JArr xs)"
      and "list_all2 (\<lambda>x p. formatVenueAsText (Some x) = Inr p) xs ps" for k
    using that(1,2) assms(2)
    by (simp add: textOutput_def map_join_array [OF that(3)] del: map_join.simps)
  have at: "textOutput k (JObj kvs) = Inr (join separator ps)"
    if "\<not> truthy (map_of e ''events'')" and "\<not> truthy (map_of e ''venues'')"
      and "map_of e ''attractions'' = Some (JArr xs)"
      and "list_all2 (\<lambda>x p. formatAttractionAsText (Some x) = Inr p) xs ps" for k
    using that(1,2,3) assms(2)
    by (simp add: textOutput_def map_join_array [OF that(4)] del: map_join.simps)
  have r1: "format_output rt a (JObj kvs)
      = Inr (if xs = [] then ''No results found.'' else join separator ps)"
    if "map_of e ''events'' = Some (JArr xs)"
      and "list_all2 (\<lambda>x p. formatEventAsText (Some x) = Inr p) xs ps"
    using returned [of formatEventAsText] ev [OF that] that(2) event_text_nonempty by blast
  have r2: "format_output rt a (JObj kvs)
      = Inr (if xs = [] then ''No results found.'' else join separator ps)"
    if "\<not> truthy (map_of e ''events'')" and "map_of e ''venues'' = Some (JArr xs)"
      and "list_all2 (\<lambda>x p. formatVenueAsText (Some x) = Inr p) xs ps"
    using returned [of formatVenueAsText] ve [OF that] that(3) venue_text_nonempty by blast
  have r3: "format_output rt a (JObj kvs)
      = Inr (if xs = [] then ''No results found.'' else join separator ps)"
    if "\<not> truthy (map_of e ''events'')" and "\<not> truthy (map_of e ''venues'')"
      and "map_of e ''attractions'' = Some (JArr xs)"
      and "list_all2 (\<lambda>x p. formatAttractionAsText (Some x) = Inr p) xs ps"
    using returned [of formatAttractionAsText] at [OF that] that(4) attraction_text_nonempty
    by blast
  show ?thesis
    using ev ve at r1 r2 r3 by blast
qed

lemma venue_a_text: "formatVenueAsText (Some venue_a) = Inr ''Venue: Hall A (ID: V1)''"
  by (simp add: formatVenueAsText_def head_line_def venue_address_lines_def
      venue_location_lines_def url_lines_def venue_a_def)

lemma venue_b_text:
  "formatVenueAsText (Some venue_b) = Inr ''Venue: Hall B (ID: V2)\<newline>Location: Oslo, NO''"
  by (simp add: formatVenueAsText_def head_line_def venue_address_lines_def
      venue_location_lines_def url_lines_def venue_b_def)

text \<open>A body that embeds two venues, in text mode.\<close>

theorem embedded_collection_text_witness:
  "format_output (sample_runtime JNull) args_venue_text two_venues_body
   = Inr ''Venue: Hall A (ID: V1)\<newline>\<newline>---\<newline>\<newline>Venue: Hall B (ID: V2)\<newline>Location: Oslo, NO''"
proof -
  let ?ps = "[''Venue: Hall A (ID: V1)'', ''Venue: Hall B (ID: V2)\<newline>Location: Oslo, NO'']"
  have fmt: "map_of args_venue_text ''format'' = Some (JStr ''text'')"
    by (simp add: args_venue_text_def)
  have emb: "map_of [(''_embedded'', JObj [(''venues'', JArr [venue_a, venue_b])])] ''_embedded''
      = Some (JObj [(''venues'', JArr [venue_a, venue_b])])"
    by simp
  have each: "list_all2 (\<lambda>x p. formatVenueAsText (Some x) = Inr p) [venue_a, venue_b] ?ps"
    by (simp add: venue_a_text venue_b_text)
  show ?thesis
    using embedded_collection_text [OF fmt emb, of "[venue_a, venue_b]" ?ps] each
    by (simp add: two_venues_body_def separator_def)
qed

text \<open>
  C6. An event whose \<^verbatim>\<open>dates\<close> has no truthy \<^verbatim>\<open>start\<close>, whose \<^verbatim>\<open>_embedded\<close> has no
  \<^verbatim>\<open>venues\<close> or an empty array of them, which has no \<^verbatim>\<open>priceRanges\<close> or an empty array
  of them, and no truthy \<^verbatim>\<open>url\<close>, has the projection \<^verbatim>\<open>Event: <name> (ID: <id>)\<close> and
  nothing after it, where \<^verbatim>\<open><name>\<close> and \<^verbatim>\<open><id>\<close> are the two properties as strings.
\<close>

theorem bare_event_is_one_line:
  assumes "ToString (map_of kvs ''name'') = Inr n"
    and "ToString (map_of kvs ''id'') = Inr i"
    and "\<not> truthy (opt_prop (map_of kvs ''dates'') ''start'')"
    and "opt_prop (map_of kvs ''_embedded'') ''venues'' = None
         \<or> opt_prop (map_of kvs ''_embedded'') ''venues'' = Some (JArr [])"
    and "map_of kvs ''priceRanges'' = None \<or> map_of kvs ''priceRanges'' = Some (JArr [])"
    and "\<not> truthy (map_of kvs ''url'')"
  shows "formatEventAsText (Some (JObj kvs)) = Inr (''Event: '' @ n @ '' (ID: '' @ i @ '')'')"
proof -
  have h: "head_line ''Event'' (Some (JObj kvs)) = Inr (''Event: '' @ n @ '' (ID: '' @ i @ '')'')"
    using assms(1,2) by (simp add: head_line_def)
  have d: "event_date_lines (Some (JObj kvs)) = Inr []"
    using assms(3) by (simp add: event_date_lines_def)
  have v: "event_venue_lines (Some (JObj kvs)) = Inr []"
    using assms(4) by (auto simp add: event_venue_lines_def)
  have p: "event_price_lines (Some (JObj kvs)) = Inr []"
    using assms(5) by (auto simp add: event_price_lines_def)
  have u: "url_lines (Some (JObj kvs)) = Inr []"
    using assms(6) by (simp add: url_lines_def)
  show ?thesis
    by (simp add: formatEventAsText_def h d v p u)
qed

theorem bare_event_is_one_line_witness:
  "formatEventAsText (Some bare_event) = Inr ''Event: Gala (ID: E7)''"
  using bare_event_is_one_line
    [of "[(''name'', JStr ''Gala''), (''id'', JStr ''E7'')]" "''Gala''" "''E7''"]
  by (simp add: bare_event_def)

text \<open>
  C8. When the body has a truthy \<^verbatim>\<open>_embedded\<close>, \<^verbatim>\<open>textOutput\<close> is the same for any two
  types of request: the type is not read. When it has none (and the body is not
  \<^verbatim>\<open>null\<close>), the type selects the projection that is applied to the body itself.
\<close>

theorem kind_ignored_when_embedded:
  "(truthy (opt_prop (Some results) ''_embedded'')
      \<longrightarrow> textOutput kind results = textOutput kind' results)
   \<and> (\<not> truthy (opt_prop (Some results) ''_embedded'') \<and> results \<noteq> JNull
      \<longrightarrow> textOutput (Some (JStr ''event'')) results = formatEventAsText (Some results)
        \<and> textOutput (Some (JStr ''venue'')) results = formatVenueAsText (Some results)
        \<and> textOutput (Some (JStr ''attraction'')) results
            = formatAttractionAsText (Some results))"
  by (cases results) (simp_all add: textOutput_def)

lemma bare_event_text: "formatEventAsText (Some bare_event) = Inr ''Event: Gala (ID: E7)''"
  by (simp add: formatEventAsText_def head_line_def event_date_lines_def
      event_venue_lines_def event_price_lines_def url_lines_def bare_event_def)

text \<open>
  A request of type \<^verbatim>\<open>venue\<close> whose body embeds events gets the event projection; the
  same record as a body of its own gets the venue projection.
\<close>

theorem kind_ignored_when_embedded_witness:
  "textOutput (Some (JStr ''venue'')) embedded_events_body = Inr ''Event: Gala (ID: E7)''
   \<and> textOutput (Some (JStr ''venue'')) bare_event = Inr ''Venue: Gala (ID: E7)''"
proof -
  have "textOutput (Some (JStr ''event'')) embedded_events_body = Inr ''Event: Gala (ID: E7)''"
    by (simp add: textOutput_def embedded_events_body_def bare_event_text)
  moreover have "formatVenueAsText (Some bare_event) = Inr ''Venue: Gala (ID: E7)''"
    by (simp add: formatVenueAsText_def head_line_def venue_address_lines_def
        venue_location_lines_def url_lines_def bare_event_def)
  ultimately show ?thesis
    using kind_ignored_when_embedded
        [of embedded_events_body "Some (JStr ''venue'')" "Some (JStr ''event'')"]
      kind_ignored_when_embedded [of bare_event]
    by (simp add: embedded_events_body_def bare_event_def)
qed

section \<open>JSON mode\<close>

text \<open>
  When the request is sent, the answer has a status from 200 to 299, and the format is
  anything but \<^verbatim>\<open>text\<close> (\<^verbatim>\<open>json\<close>, given or by default, in particular), the handler
  returns what the engine's \<^verbatim>\<open>JSON.stringify\<close> writes for the body it received: the
  body reaches the serialiser as it came, and neither the type of the request nor any
  other argument has a part in the text. Whether reading that text gives the body back
  is a property of the engine's number and string rendering, which is outside this
  theory.
\<close>

lemma json_mode_returns_serialisation:
  assumes "route a = Inr req" and "transport rt req = Answered r"
    and "200 \<le> status r" and "status r < 300"
    and "arg a ''format'' \<noteq> Some (JStr ''text'')"
  shows "handler rt ''search_tm_partner'' (Some a)
         = ([req], Returned (json_stringify rt (data r)))"
proof -
  have "format_output rt a (data r) = Inr (json_stringify rt (data r))"
    using assms(5) by (simp add: format_output_def)
  then show ?thesis
    using handler_resolved [OF assms(1-4)] by simp
qed

section \<open>Arguments\<close>

lemma pick_cong: "(\<And>k. k \<in> set ks \<Longrightarrow> arg a k = arg b k) \<Longrightarrow> pick a ks = pick b ks"
  by (simp add: pick_def)

text \<open>
  C9. Two calls whose arguments agree on every property but \<^verbatim>\<open>marketId\<close>,
  \<^verbatim>\<open>onsaleStartDateTime\<close>, \<^verbatim>\<open>onsaleEndDateTime\<close>, \<^verbatim>\<open>locale\<close> and \<^verbatim>\<open>source\<close> send the same
  requests and end the same way, for any tool name and any upstream behaviour.
\<close>

theorem unread_arguments_do_not_matter:
  assumes "\<forall>k. k \<notin> {''marketId'', ''onsaleStartDateTime'', ''onsaleEndDateTime'', ''locale'',
                     ''source''} \<longrightarrow> map_of a k = map_of b k"
  shows "handler rt name (Some a) = handler rt name (Some b)"
proof -
  have eq: "arg a k = arg b k"
    if "k \<notin> {''marketId'', ''onsaleStartDateTime'', ''onsaleEndDateTime'', ''locale'', ''source''}"
    for k
    using assms that by (simp add: arg_def)
  have ev: "pick a event_search_fields = pick b event_search_fields"
    by (rule pick_cong, rule eq) (auto simp add: event_search_fields_def)
  have ve: "pick a venue_search_fields = pick b venue_search_fields"
    by (rule pick_cong, rule eq) (auto simp add: venue_search_fields_def)
  have at: "pick a attraction_search_fields = pick b attraction_search_fields"
    by (rule pick_cong, rule eq) (auto simp add: attraction_search_fields_def)
  have r: "route a = route b"
    by (simp add: route_def ev ve at eq)
  have f: "format_output rt a = format_output rt b"
    by (simp add: format_output_def fun_eq_iff eq)
  have s: "search_tm_partner rt (Some a) = search_tm_partner rt (Some b)"
    by (simp add: search_tm_partner_def r f cong: sum.case_cong)
  show ?thesis
    by (simp add: handler_def try_block_def s)
qed

text \<open>
  One call with \<^verbatim>\<open>marketId\<close> and \<^verbatim>\<open>locale\<close>, one with \<^verbatim>\<open>source\<close>, otherwise the same
  search: both send the same parameters and return the same text.
\<close>

theorem unread_arguments_do_not_matter_witness:
  "handler (sample_runtime two_venues_body) ''search_tm_partner'' (Some args_venue_market)
   = handler (sample_runtime two_venues_body) ''search_tm_partner'' (Some args_venue_source)
   \<and> fst (handler (sample_runtime two_venues_body) ''search_tm_partner''
        (Some args_venue_source))
     = [\<lparr>url = ''/venues'',
         params = Some [(''keyword'', Some (JStr ''hall'')), (''size'', Some (JNum 20)),
           (''page'', Some (JNum 0)), (''sort'', None), (''city'', None),
           (''countryCode'', None), (''stateCode'', None), (''postalCode'', None),
           (''latlong'', None), (''radius'', None), (''unit'', None)]\<rparr>]"
proof -
  have "\<forall>k. k \<notin> {''marketId'', ''onsaleStartDateTime'', ''onsaleEndDateTime'', ''locale'',
                   ''source''} \<longrightarrow> map_of args_venue_market k = map_of args_venue_source k"
    by (simp add: args_venue_market_def args_venue_source_def)
  then have "handler (sample_runtime two_venues_body) ''search_tm_partner''
        (Some args_venue_market)
      = handler (sample_runtime two_venues_body) ''search_tm_partner'' (Some args_venue_source)"
    by (rule unread_arguments_do_not_matter)
  then show ?thesis
    by (simp add: sent_requests route_def arg_def searchVenues_def pick_def
        venue_search_fields_def args_venue_source_def)
qed

text \<open>
  C10. An identifier given as the empty string is not truthy, so the handler searches:
  for type \<^verbatim>\<open>event\<close> with \<^verbatim>\<open>eventId = ""\<close> it sends the event search, for type
  \<^verbatim>\<open>venue\<close> with \<^verbatim>\<open>venueId = ""\<close> the venue search, and for type \<^verbatim>\<open>attraction\<close> with
  \<^verbatim>\<open>attractionId = ""\<close> the attraction search, whatever the other arguments are.
\<close>

theorem empty_identifier_is_absent:
  "(map_of a ''type'' = Some (JStr ''event'') \<and> map_of a ''eventId'' = Some (JStr [])
      \<longrightarrow> fst (handler rt ''search_tm_partner'' (Some a))
            = [\<lparr>url = ''/events'', params = Some (pick a event_search_fields)\<rparr>])
   \<and> (map_of a ''type'' = Some (JStr ''venue'') \<and> map_of a ''venueId'' = Some (JStr [])
      \<longrightarrow> fst (handler rt ''search_tm_partner'' (Some a))
            = [\<lparr>url = ''/venues'', params = Some (pick a venue_search_fields)\<rparr>])
   \<and> (map_of a ''type'' = Some (JStr ''attraction'')
        \<and> map_of a ''attractionId'' = Some (JStr [])
      \<longrightarrow> fst (handler rt ''search_tm_partner'' (Some a))
            = [\<lparr>url = ''/attractions'', params = Some (pick a attraction_search_fields)\<rparr>])"
  by (simp add: sent_requests route_def arg_plain searchEvents_def searchVenues_def
      searchAttractions_def)

theorem empty_identifier_is_absent_witness:
  "url (hd (fst (handler (sample_runtime JNull) ''search_tm_partner''
      (Some [(''type'', JStr ''event''), (''eventId'', JStr []), (''city'', JStr ''Oslo'')]))))
     = ''/events''
   \<and> url (hd (fst (handler (sample_runtime JNull) ''search_tm_partner''
        (Some args_venue_empty_id)))) = ''/venues''
   \<and> url (hd (fst (handler (sample_runtime JNull) ''search_tm_partner''
        (Some args_attraction_empty_id)))) = ''/attractions''"
  using empty_identifier_is_absent
      [of "[(''type'', JStr ''event''), (''eventId'', JStr []), (''city'', JStr ''Oslo'')]"
        "sample_runtime JNull"]
    empty_identifier_is_absent [of args_venue_empty_id "sample_runtime JNull"]
    empty_identifier_is_absent [of args_attraction_empty_id "sample_runtime JNull"]
  by (simp add: args_venue_empty_id_def args_attraction_empty_id_def)

end
